theory Spec2Isabelle
  imports Main
begin

section \<open>Python values, exceptions and text\<close>

text \<open>
  The scrapers are Python programs that drive a browser (Selenium), an HTTP session
  (requests) and the file system. Every call into one of these collaborators is modelled
  as a function of an explicit world; what the collaborator answers is a parameter of the
  model, so each theorem holds for every browser, server and disk.

  Text is a list of 8-bit characters read as the code points U+0000..U+00FF (the portal
  is Spanish; \<open>CHR 0xE1\<close> is the letter a with acute accent). Text with code points
  beyond U+00FF is outside the model.

  Log lines are kept, with their fixed text only, where a property speaks of what is
  logged: in the duplicate filter and in the downloader. Those of the pagination
  controller are left out. \<open>time.sleep\<close> is a step of the browser, during which the
  page may change; it is left out of the downloader, where nothing depends on time.
\<close>

text \<open>The subclasses of \<open>Exception\<close> that the collaborators and the interpreter raise.
  The user's interrupt is not one of them; it is modelled with the run, below.\<close>

datatype exn =
  RequestException | HTTPError | AttributeError | TypeError | ValueError | OSError
  | WebDriverException

text \<open>\<open>except requests.RequestException\<close> catches the errors of the HTTP library.\<close>

definition is_RequestException :: \<open>exn \<Rightarrow> bool\<close> where
  \<open>is_RequestException e = (e = RequestException \<or> e = HTTPError)\<close>

datatype pyval =
  PNone | PBool bool | PInt int | PStr string | PList \<open>pyval list\<close>
  | PDict \<open>(string \<times> pyval) list\<close>

text \<open>Truthiness, as \<open>if x:\<close> tests it.\<close>

fun truthy :: \<open>pyval \<Rightarrow> bool\<close> where
  \<open>truthy PNone = False\<close>
| \<open>truthy (PBool b) = b\<close>
| \<open>truthy (PInt i) = (i \<noteq> 0)\<close>
| \<open>truthy (PStr s) = (s \<noteq> [])\<close>
| \<open>truthy (PList xs) = (xs \<noteq> [])\<close>
| \<open>truthy (PDict kvs) = (kvs \<noteq> [])\<close>

text \<open>\<open>d.get(key, default)\<close>: only a dict has the method.\<close>

fun py_get :: \<open>pyval \<Rightarrow> string \<Rightarrow> pyval \<Rightarrow> exn + pyval\<close> where
  \<open>py_get (PDict kvs) k d = Inr (case map_of kvs k of None \<Rightarrow> d | Some v \<Rightarrow> v)\<close>
| \<open>py_get _ k d = Inl AttributeError\<close>

text \<open>\<open>d[key] = v\<close> on a dict: an existing key keeps its place, a new one goes last.\<close>

fun dict_set :: \<open>(string \<times> pyval) list \<Rightarrow> string \<Rightarrow> pyval \<Rightarrow> (string \<times> pyval) list\<close> where
  \<open>dict_set [] k v = [(k, v)]\<close>
| \<open>dict_set ((k', v') # kvs) k v =
     (if k' = k then (k, v) # kvs else (k', v') # dict_set kvs k v)\<close>

subsection \<open>Characters\<close>

definition is_digit :: \<open>char \<Rightarrow> bool\<close> where
  \<open>is_digit c = (48 \<le> (of_char c :: nat) \<and> (of_char c :: nat) \<le> 57)\<close>

text \<open>\<open>\s\<close> of a str pattern and \<open>str.strip\<close>: the white space of Unicode below U+0100.\<close>

definition is_space :: \<open>char \<Rightarrow> bool\<close> where
  \<open>is_space c = (let n = (of_char c :: nat) in
     (9 \<le> n \<and> n \<le> 13) \<or> (28 \<le> n \<and> n \<le> 32) \<or> n = 133 \<or> n = 160)\<close>

definition is_quote :: \<open>char \<Rightarrow> bool\<close> where
  \<open>is_quote c = (c = CHR 0x22 \<or> c = CHR 0x27)\<close>

text \<open>\<open>str.lower\<close> on one character: A-Z, and the capital letters U+00C0..U+00DE but
  the multiplication sign U+00D7.\<close>

definition lower_char :: \<open>char \<Rightarrow> char\<close> where
  \<open>lower_char c = (let n = (of_char c :: nat) in
     if (65 \<le> n \<and> n \<le> 90) \<or> (192 \<le> n \<and> n \<le> 222 \<and> n \<noteq> 215)
     then char_of (n + 32) else c)\<close>

definition lower :: \<open>string \<Rightarrow> string\<close> where
  \<open>lower s = map lower_char s\<close>

text \<open>\<open>needle in haystack\<close> on strings.\<close>

fun contains :: \<open>string \<Rightarrow> string \<Rightarrow> bool\<close> where
  \<open>contains needle [] = (needle = [])\<close>
| \<open>contains needle (c # cs) =
     (take (length needle) (c # cs) = needle \<or> contains needle cs)\<close>

definition startswith :: \<open>string \<Rightarrow> string \<Rightarrow> bool\<close> where
  \<open>startswith s p = (take (length p) s = p)\<close>

definition endswith :: \<open>string \<Rightarrow> string \<Rightarrow> bool\<close> where
  \<open>endswith s p = (length p \<le> length s \<and> drop (length s - length p) s = p)\<close>

definition strip :: \<open>string \<Rightarrow> string\<close> where
  \<open>strip s = rev (dropWhile is_space (rev (dropWhile is_space s)))\<close>

text \<open>\<open>int(s)\<close> on a run of the digits 0-9.\<close>

definition digit_val :: \<open>char \<Rightarrow> int\<close> where
  \<open>digit_val c = int (of_char c) - 48\<close>

definition int_of_digits :: \<open>string \<Rightarrow> int\<close> where
  \<open>int_of_digits s = foldl (\<lambda>a c. 10 * a + digit_val c) 0 s\<close>

section \<open>Regular expressions of the scrapers\<close>

text \<open>
  Every pattern of the source is a sequence of literals, single characters of a class
  and greedy repetitions of a class. \<open>re_match\<close> is the backtracking matcher of
  \<open>re\<close> on such a sequence: a repetition takes the longest run first and gives
  characters back one at a time; the result is the number of characters each atom took.
  \<open>re_search\<close> is the leftmost match, which is also \<open>re.findall(...)[0]\<close>.
\<close>

datatype cclass = Digit | Space | Quote | NotQuote

fun in_class :: \<open>cclass \<Rightarrow> char \<Rightarrow> bool\<close> where
  \<open>in_class Digit c = is_digit c\<close>
| \<open>in_class Space c = is_space c\<close>
| \<open>in_class Quote c = is_quote c\<close>
| \<open>in_class NotQuote c = (\<not> is_quote c)\<close>

datatype atom = Lit string | One cclass | Rep cclass nat

definition lit_prefix :: \<open>bool \<Rightarrow> string \<Rightarrow> string \<Rightarrow> bool\<close> where
  \<open>lit_prefix ignorecase l s =
     (if ignorecase then lower (take (length l) s) = lower l else take (length l) s = l)\<close>

fun first_some :: \<open>('a \<Rightarrow> 'b option) \<Rightarrow> 'a list \<Rightarrow> 'b option\<close> where
  \<open>first_some f [] = None\<close>
| \<open>first_some f (x # xs) = (case f x of Some y \<Rightarrow> Some y | None \<Rightarrow> first_some f xs)\<close>

primrec re_match :: \<open>bool \<Rightarrow> atom list \<Rightarrow> string \<Rightarrow> nat list option\<close> where
  \<open>re_match ic [] s = Some []\<close>
| \<open>re_match ic (a # as) s =
     (case a of
        Lit l \<Rightarrow>
          if lit_prefix ic l s
          then map_option ((#) (length l)) (re_match ic as (drop (length l) s))
          else None
      | One c \<Rightarrow>
          (case s of
             [] \<Rightarrow> None
           | x # xs \<Rightarrow> if in_class c x then map_option ((#) 1) (re_match ic as xs) else None)
      | Rep c least \<Rightarrow>
          first_some (\<lambda>k. map_option ((#) k) (re_match ic as (drop k s)))
            (rev [least ..< Suc (length (takeWhile (in_class c) s))]))\<close>

text \<open>The leftmost match: the text from where it starts, and the atoms' lengths.\<close>

fun re_search :: \<open>bool \<Rightarrow> atom list \<Rightarrow> string \<Rightarrow> (string \<times> nat list) option\<close> where
  \<open>re_search ic as [] = map_option (Pair []) (re_match ic as [])\<close>
| \<open>re_search ic as (c # cs) =
     (case re_match ic as (c # cs) of
        Some ks \<Rightarrow> Some (c # cs, ks)
      | None \<Rightarrow> re_search ic as cs)\<close>

text \<open>The text that atoms \<open>i\<close> to \<open>j\<close> (inclusive) of a match took: a group.\<close>

definition group_text :: \<open>string \<times> nat list \<Rightarrow> nat \<Rightarrow> nat \<Rightarrow> string\<close> where
  \<open>group_text m i j =
     take (sum_list (take (Suc j - i) (drop i (snd m)))) (drop (sum_list (take i (snd m))) (fst m))\<close>

text \<open>\<open>str(n)\<close> of an integer.\<close>

fun dec :: \<open>nat \<Rightarrow> string\<close> where
  \<open>dec n = (if n < 10 then [char_of (48 + n)] else dec (n div 10) @ [char_of (48 + n mod 10)])\<close>

definition str_int :: \<open>int \<Rightarrow> string\<close> where
  \<open>str_int i = (if i < 0 then CHR ''-'' # dec (nat (- i)) else dec (nat i))\<close>

section \<open>The browser\<close>

text \<open>
  A browser is what Selenium answers on a page \<open>'p\<close> with elements \<open>'e\<close>. Reading the
  page leaves it as it is and may raise; a command (click, clear, send_keys, get) may
  change the page and may raise; waiting (\<open>time.sleep\<close>) may change the page. The
  world keeps the page and the commands issued so far.
\<close>

datatype locator = XPATH | CSS_SELECTOR

datatype 'e cmd = Click 'e | Clear 'e | SendKeys 'e string | Get string

record ('p, 'e) browser =
  page_source :: \<open>'p \<Rightarrow> exn + string\<close>
  current_url :: \<open>'p \<Rightarrow> exn + string\<close>
  find_elements :: \<open>locator \<Rightarrow> string \<Rightarrow> 'p \<Rightarrow> exn + 'e list\<close>
  is_displayed :: \<open>'e \<Rightarrow> 'p \<Rightarrow> exn + bool\<close>
  is_enabled :: \<open>'e \<Rightarrow> 'p \<Rightarrow> exn + bool\<close>
  elem_text :: \<open>'e \<Rightarrow> 'p \<Rightarrow> exn + string\<close>
  get_attribute :: \<open>'e \<Rightarrow> string \<Rightarrow> 'p \<Rightarrow> exn + string option\<close>
  exec :: \<open>'e cmd \<Rightarrow> 'p \<Rightarrow> exn option \<times> 'p\<close>
  sleep :: \<open>'p \<Rightarrow> 'p\<close>




section \<open>The pagination controller (improved\_pagination\_scraper.py)\<close>

text \<open>The attributes of \<open>ImprovedPaginationEcuadorScraper\<close> that the controller and the
  extraction use. \<open>driver\<close> tells whether \<open>self.driver\<close> is set. \<open>self.current\_page\<close> is
  an integer at every assignment, so its test against \<open>None\<close> is not modelled.\<close>

record scraper =
  driver :: bool
  current_page :: int
  seen_project_ids :: \<open>string set\<close>

text \<open>The four page-count patterns, with the atoms that are their two groups, and the
  four total-records patterns, with the atom that is their group. All are searched with
  \<open>re.IGNORECASE\<close>.\<close>

definition page_patterns :: \<open>(atom list \<times> nat \<times> nat) list\<close> where
  \<open>page_patterns =
     [([Rep Digit 1, Rep Space 0, Lit ''of'', Rep Space 0, Rep Digit 1], 0, 4),
      ([Lit (''P'' @ [CHR 0xE1] @ ''gina''), Rep Space 0, Rep Digit 1, Rep Space 0, Lit ''de'',
        Rep Space 0, Rep Digit 1], 2, 6),
      ([Rep Digit 1, Rep Space 0, Lit ''/'', Rep Space 0, Rep Digit 1], 0, 4),
      ([Rep Digit 1, Rep Space 0, Lit ''de'', Rep Space 0, Rep Digit 1], 0, 4)]\<close>

definition total_patterns :: \<open>(atom list \<times> nat) list\<close> where
  \<open>total_patterns =
     [([Lit ''total de registros:'', Rep Space 0, Rep Digit 1], 2),
      ([Lit ''total records:'', Rep Space 0, Rep Digit 1], 2),
      ([Lit ''registros:'', Rep Space 0, Rep Digit 1], 2),
      ([Lit ''records:'', Rep Space 0, Rep Digit 1], 2)]\<close>

text \<open>\<open>int(s)\<close> on a group of a match, a run of digits: CPython (3.11 and later)
  raises \<open>ValueError\<close> for more than 4300 digits.\<close>

definition py_int :: \<open>string \<Rightarrow> exn + int\<close> where
  \<open>py_int s = (if length s > 4300 then Inl ValueError else Inr (int_of_digits s))\<close>

text \<open>\<open>current, total = map(int, matches[0])\<close> for a pattern that matches: the two
  numbers, or the exception of the conversion; \<open>None\<close> for a pattern that does not
  match.\<close>

definition page_match :: \<open>string \<Rightarrow> atom list \<times> nat \<times> nat \<Rightarrow> (exn + int \<times> int) option\<close> where
  \<open>page_match page_content pat =
     (case pat of (atoms, g1, g2) \<Rightarrow>
        map_option
          (\<lambda>m. case py_int (group_text m g1 g1) of
                 Inl e \<Rightarrow> Inl e
               | Inr current \<Rightarrow>
                   (case py_int (group_text m g2 g2) of
                      Inl e \<Rightarrow> Inl e
                    | Inr total_n \<Rightarrow> Inr (current, total_n)))
          (re_search True atoms page_content))\<close>

definition total_match :: \<open>string \<Rightarrow> atom list \<times> nat \<Rightarrow> (exn + int) option\<close> where
  \<open>total_match page_content pat =
     (case pat of (atoms, g) \<Rightarrow>
        map_option (\<lambda>m. py_int (group_text m g g)) (re_search True atoms page_content))\<close>

text \<open>The dict that \<open>get\_total\_records\_and\_pages\<close> returns; the key
  \<open>current\_page\<close> is absent when there is no driver.\<close>

record pagination_info =
  total_records :: int
  total_pages :: int
  items_per_page :: int
  info_current_page :: \<open>int option\<close>

definition default_pagination_info :: pagination_info where
  \<open>default_pagination_info =
     \<lparr>total_records = 2742, total_pages = 275, items_per_page = 10, info_current_page = Some 1\<rparr>\<close>

definition get_total_records_and_pages ::
  \<open>('p, 'e) browser \<Rightarrow> scraper \<Rightarrow> 'p \<Rightarrow> pagination_info\<close> where
  \<open>get_total_records_and_pages br self p =
     (if \<not> driver self
      then \<lparr>total_records = 0, total_pages = 0, items_per_page = 10, info_current_page = None\<rparr>
      else
        case page_source br p of
          Inl e \<Rightarrow> default_pagination_info
        | Inr page_content \<Rightarrow>
            (case first_some (page_match page_content) page_patterns of
               Some (Inl e) \<Rightarrow> default_pagination_info
             | Some (Inr (current, total_n)) \<Rightarrow>
                 \<lparr>total_records = total_n * 10, total_pages = total_n, items_per_page = 10,
                  info_current_page = Some current\<rparr>
             | None \<Rightarrow>
                 (case first_some (total_match page_content) total_patterns of
                    Some (Inl e) \<Rightarrow> default_pagination_info
                  | Some (Inr records_n) \<Rightarrow>
                      \<lparr>total_records = records_n, total_pages = (records_n + 9) div 10,
                       items_per_page = 10, info_current_page = Some 1\<rparr>
                  | None \<Rightarrow> default_pagination_info)))\<close>



subsection \<open>Extraction of one page and the run-wide duplicate filter\<close>

datatype level = DEBUG | INFO | WARNING | ERROR

type_synonym log = \<open>(level \<times> string) list\<close>

text \<open>The dict that \<open>extract\_table\_data\<close> builds for a row. Its keys are fixed and its
  texts are strings; \<open>pdf\_links\<close> is the one key that may be absent. (\<open>id'\<close> is the key
  \<open>id\<close>.)\<close>

record project =
  id' :: string
  title :: string
  description :: string
  status :: string
  date_created :: string
  author :: string
  committee :: string
  document_url :: string
  page_number :: int
  source :: string
  pdf_links :: \<open>string list option\<close>



subsection \<open>Pagination controls\<close>









subsection \<open>Advancing to the next page\<close>












subsection \<open>The pagination of comprehensive\_pdf\_scraper.py\<close>





subsection \<open>A portal to run the controllers on\<close>


text \<open>A second small browser: the page is its number, shown as \<open>n of 9\<close>, but page 0
  is still loading and shows no number; a click on the next button (selector
  \<open>.pagination-next\<close>) leads to page 0.\<close>

definition loading_portal :: \<open>(nat, nat) browser\<close> where
  \<open>loading_portal =
     \<lparr>page_source = (\<lambda>n. Inr (if n = 0 then ''Cargando...'' else dec n @ '' of 9'')),
      current_url = (\<lambda>n. Inr ''https://leyes.asambleanacional.gob.ec?vhf=1''),
      find_elements = (\<lambda>l selector n. Inr (if selector = ''.pagination-next'' then [0] else [])),
      is_displayed = (\<lambda>e n. Inr True),
      is_enabled = (\<lambda>e n. Inr True),
      elem_text = (\<lambda>e n. Inr ''>''),
      get_attribute = (\<lambda>e a n. Inr None),
      exec = (\<lambda>c n. (None, case c of Click e \<Rightarrow> 0 | _ \<Rightarrow> n)),
      sleep = (\<lambda>n. n)\<rparr>\<close>

section \<open>The PDF downloader (improved\_pdf\_downloader.py)\<close>

subsection \<open>The HTTP session, the disk and the library\<close>

text \<open>A request as the session sends it: \<open>HEAD url\<close> (timeout 30, redirects followed)
  and \<open>GET url timeout stream\<close>. The accessibility probe reads with timeout 30, the
  download with timeout 60.\<close>

datatype request = HEAD string | GET string nat bool

text \<open>A response as the code reads it: the status, the headers \<open>content-type\<close> and
  \<open>content-length\<close> when present, what \<open>raw.read(1024)\<close> gives, and the chunks of
  \<open>iter\_content\<close> with the error, if any, that ends them.\<close>

record response =
  status_code :: nat
  content_type :: \<open>string option\<close>
  content_length :: \<open>string option\<close>
  raw_read :: \<open>exn + string\<close>
  iter_content :: \<open>string list\<close>
  iter_error :: \<open>exn option\<close>

text \<open>What the downloader does not define itself. The server answers a request, knowing
  the requests before it (its cookies and its state), or the request raises.
  \<open>can\_open\<close> tells whether \<open>open(path, 'wb')\<close> succeeds. The rest is library code
  whose result only names the file or reads a header: \<open>re.sub(pattern, repl, s)\<close>,
  \<open>urlparse(url).path\<close>, \<open>os.path.basename\<close>, \<open>str(self.pdf\_dir / filename)\<close>,
  \<open>repr\<close> of a list or dict, \<open>int(s)\<close> of a header.\<close>

record env =
  server :: \<open>request list \<Rightarrow> request \<Rightarrow> exn + response\<close>
  can_open :: \<open>string \<Rightarrow> bool\<close>
  re_sub :: \<open>string \<Rightarrow> string \<Rightarrow> string \<Rightarrow> string\<close>
  urlparse_path :: \<open>string \<Rightarrow> exn + string\<close>
  basename :: \<open>string \<Rightarrow> string\<close>
  path_join :: \<open>string \<Rightarrow> string \<Rightarrow> string\<close>
  repr :: \<open>pyval \<Rightarrow> string\<close>
  int_of_str :: \<open>string \<Rightarrow> exn + int\<close>

text \<open>The world of the downloader: the files (path to bytes), the requests sent so far
  and the log.\<close>

record dworld =
  files :: \<open>string \<rightharpoonup> string\<close>
  requests :: \<open>request list\<close>
  logs :: log

definition log_msg :: \<open>level \<Rightarrow> string \<Rightarrow> dworld \<Rightarrow> dworld\<close> where
  \<open>log_msg lvl msg w = w\<lparr>logs := logs w @ [(lvl, msg)]\<rparr>\<close>

definition http :: \<open>env \<Rightarrow> request \<Rightarrow> dworld \<Rightarrow> (exn + response) \<times> dworld\<close> where
  \<open>http env req w = (server env (requests w) req, w\<lparr>requests := requests w @ [req]\<rparr>)\<close>

text \<open>\<open>response.raise\_for\_status()\<close>.\<close>

definition raise_for_status :: \<open>response \<Rightarrow> exn option\<close> where
  \<open>raise_for_status r =
     (if 400 \<le> status_code r \<and> status_code r < 600 then Some HTTPError else None)\<close>

text \<open>A value inside an f-string.\<close>

definition py_str :: \<open>env \<Rightarrow> pyval \<Rightarrow> string\<close> where
  \<open>py_str env v =
     (case v of
        PStr s \<Rightarrow> s
      | PNone \<Rightarrow> ''None''
      | PBool b \<Rightarrow> (if b then ''True'' else ''False'')
      | PInt i \<Rightarrow> str_int i
      | _ \<Rightarrow> repr env v)\<close>

subsection \<open>Session setup and the accessibility probe\<close>




text \<open>The handlers of \<open>test\_pdf\_access\<close>; both answer \<open>False\<close>.\<close>

definition probe_failed :: \<open>exn \<Rightarrow> dworld \<Rightarrow> (bool \<times> string) \<times> dworld\<close> where
  \<open>probe_failed e w =
     ((False, ''exception''),
      log_msg ERROR (if is_RequestException e then ''Request error testing PDF''
                     else ''Error testing PDF access'') w)\<close>

text \<open>\<open>test\_pdf\_access\<close>: a HEAD request; when it answers 200 and the content type
  contains \<open>pdf\<close> or the URL ends in \<open>.pdf\<close>, a streamed GET whose first bytes must be
  \<open>%PDF\<close>.\<close>

definition test_pdf_access :: \<open>env \<Rightarrow> string \<Rightarrow> dworld \<Rightarrow> (bool \<times> string) \<times> dworld\<close> where
  \<open>test_pdf_access env pdf_url w =
     (let w = log_msg INFO ''Testing PDF access'' w in
      case http env (HEAD pdf_url) w of
        (Inl e, w) \<Rightarrow> probe_failed e w
      | (Inr head_response, w) \<Rightarrow>
          if status_code head_response = 200
          then
            (let ctype = lower (case content_type head_response of None \<Rightarrow> [] | Some t \<Rightarrow> t);
                 w = log_msg INFO ''HEAD response'' w
             in if contains ''pdf'' ctype \<or> endswith (lower pdf_url) ''.pdf''
                then
                  (case http env (GET pdf_url 30 True) w of
                     (Inl e, w) \<Rightarrow> probe_failed e w
                   | (Inr get_response, w) \<Rightarrow>
                       (case raise_for_status get_response of
                          Some e \<Rightarrow> probe_failed e w
                        | None \<Rightarrow>
                            (case raw_read get_response of
                               Inl e \<Rightarrow> probe_failed e w
                             | Inr content \<Rightarrow>
                                 if startswith content ''%PDF''
                                 then ((True, ''PDF content confirmed''),
                                       log_msg INFO ''PDF content confirmed - starts with %PDF'' w)
                                 else ((False, ''Not PDF content''),
                                       log_msg WARNING ''URL doesn't contain PDF content'' w))))
                else ((False, ''Wrong content type''),
                      log_msg WARNING ''Content-Type doesn't indicate PDF'' w))
          else ((False, ''HTTP status''), log_msg WARNING ''HEAD request failed'' w))\<close>

subsection \<open>Acquiring one PDF\<close>

text \<open>The patterns \<open>[^\w\s-]\<close> and \<open>[-\s]+\<close> (\<open>CHR 0x5C\<close> is the backslash).\<close>

definition unsafe_pattern :: string where
  \<open>unsafe_pattern = ''[^'' @ [CHR 0x5C] @ ''w'' @ [CHR 0x5C] @ ''s-]''\<close>

definition dashes_pattern :: string where
  \<open>dashes_pattern = ''[-'' @ [CHR 0x5C] @ ''s]+''\<close>

text \<open>The URL as the session gets it, the file name and the path of \<open>download\_pdf\<close>.
  A title that is not a string makes \<open>re.sub\<close> raise. A URL that is not a string makes
  \<open>urlparse\<close> raise when it is truthy; a falsy one (\<open>None\<close>, \<open>0\<close>, an empty list)
  parses to an empty path, so the name comes from the title, and the session later gets
  its \<open>str\<close>.\<close>

definition pdf_filepath :: \<open>env \<Rightarrow> string \<Rightarrow> pyval \<Rightarrow> pyval \<Rightarrow> exn + string \<times> string \<times> string\<close> where
  \<open>pdf_filepath env pdf_dir pdf_url project_info =
     (case py_get project_info ''id'' (PStr ''unknown'') of
        Inl e \<Rightarrow> Inl e
      | Inr project_id \<Rightarrow>
          (case py_get project_info ''title'' (PStr ''Unknown'') of
             Inl e \<Rightarrow> Inl e
           | Inr (PStr t) \<Rightarrow>
               (let safe_title =
                      take 50 (re_sub env dashes_pattern ''-'' (strip (re_sub env unsafe_pattern [] t)))
                in case pdf_url of
                     PStr url \<Rightarrow>
                       (case urlparse_path env url of
                          Inl e \<Rightarrow> Inl e
                        | Inr path \<Rightarrow>
                            (let url_filename = basename env path;
                                 filename =
                                   (if url_filename \<noteq> [] \<and> contains ''.'' url_filename
                                    then py_str env project_id @ ''_'' @ url_filename
                                    else py_str env project_id @ ''_'' @ safe_title @ ''.pdf'')
                             in Inr (url, filename, path_join env pdf_dir filename)))
                   | _ \<Rightarrow>
                       if truthy pdf_url then Inl AttributeError
                       else
                         (let filename = py_str env project_id @ ''_'' @ safe_title @ ''.pdf''
                          in Inr (py_str env pdf_url, filename, path_join env pdf_dir filename)))
           | Inr _ \<Rightarrow> Inl TypeError))\<close>

text \<open>The chunk loop: the bytes written so far and the log. \<open>downloaded\_size\<close> is the
  number of bytes written.\<close>

fun write_chunks :: \<open>int \<Rightarrow> string list \<Rightarrow> string \<Rightarrow> log \<Rightarrow> string \<times> log\<close> where
  \<open>write_chunks total_size [] written lg = (written, lg)\<close>
| \<open>write_chunks total_size (chunk # chunks) written lg =
     (if chunk \<noteq> []
      then write_chunks total_size chunks (written @ chunk)
             (if total_size > 0 \<and> int (length (written @ chunk)) mod (1024 * 1024) = 0
              then lg @ [(INFO, ''Download progress'')] else lg)
      else write_chunks total_size chunks written lg)\<close>

text \<open>The body of the \<open>try\<close> of \<open>download\_pdf\<close>: what it returns, or the exception
  that leaves it.\<close>

definition download_pdf_body ::
  \<open>env \<Rightarrow> string \<Rightarrow> pyval \<Rightarrow> pyval \<Rightarrow> dworld \<Rightarrow> (exn + string option) \<times> dworld\<close> where
  \<open>download_pdf_body env pdf_dir pdf_url project_info w =
     (case pdf_filepath env pdf_dir pdf_url project_info of
        Inl e \<Rightarrow> (Inl e, w)
      | Inr (url, filename, filepath) \<Rightarrow>
          if (case files w filepath of None \<Rightarrow> False | Some bytes \<Rightarrow> length bytes > 0)
          then (Inr (Some filepath), log_msg INFO ''PDF already exists'' w)
          else
            (let w = log_msg INFO ''URL'' (log_msg INFO ''Downloading PDF'' w) in
             case test_pdf_access env url w of
               ((False, reason), w) \<Rightarrow> (Inr None, log_msg WARNING ''PDF not accessible'' w)
             | ((True, reason), w) \<Rightarrow>
                 (case http env (GET url 60 True) w of
                    (Inl e, w) \<Rightarrow> (Inl e, w)
                  | (Inr resp, w) \<Rightarrow>
                      (case raise_for_status resp of
                         Some e \<Rightarrow> (Inl e, w)
                       | None \<Rightarrow>
                           (let ctype = lower (case content_type resp of None \<Rightarrow> [] | Some t \<Rightarrow> t) in
                            if \<not> contains ''pdf'' ctype \<and> \<not> endswith (lower url) ''.pdf''
                            then (Inr None, log_msg WARNING ''Content-Type doesn't indicate PDF'' w)
                            else
                              case (case content_length resp of
                                      None \<Rightarrow> Inr 0
                                    | Some l \<Rightarrow> int_of_str env l) of
                                Inl e \<Rightarrow> (Inl e, w)
                              | Inr total_size \<Rightarrow>
                                  if \<not> can_open env filepath then (Inl OSError, w)
                                  else
                                    (case write_chunks total_size (iter_content resp) [] [] of
                                       (written, progress) \<Rightarrow>
                                         (let w = w\<lparr>files := (files w)(filepath \<mapsto> written),
                                                    logs := logs w @ progress\<rparr>
                                          in case iter_error resp of
                                               Some e \<Rightarrow> (Inl e, w)
                                             | None \<Rightarrow>
                                                 if length written = 0
                                                 then (Inr None,
                                                       (log_msg ERROR ''Downloaded file is empty'' w)
                                                         \<lparr>files := (files w)(filepath := None)\<rparr>)
                                                 else
                                                   (Inr (Some filepath),
                                                    log_msg INFO ''PDF downloaded successfully''
                                                      (if \<not> startswith (take 4 written) ''%PDF''
                                                       then log_msg WARNING
                                                              ''Downloaded file doesn't start with PDF header'' w
                                                       else w)))))))))\<close>

text \<open>\<open>download\_pdf\<close>: both handlers log an error and return \<open>None\<close>.\<close>

definition download_pdf ::
  \<open>env \<Rightarrow> string \<Rightarrow> pyval \<Rightarrow> pyval \<Rightarrow> dworld \<Rightarrow> string option \<times> dworld\<close> where
  \<open>download_pdf env pdf_dir pdf_url project_info w =
     (case download_pdf_body env pdf_dir pdf_url project_info w of
        (Inl e, w') \<Rightarrow>
          (None, log_msg ERROR (if is_RequestException e then ''Request error downloading PDF''
                                else ''Error downloading PDF'') w')
      | (Inr result, w') \<Rightarrow> (result, w'))\<close>

subsection \<open>The batch of projects\<close>

text \<open>\<open>self.stats\<close>; \<open>total'\<close> is the key \<open>total\<close>.\<close>

record stats =
  downloaded :: nat
  failed :: nat
  skipped :: nat
  total' :: nat

record downloader =
  pdf_dir :: string
  stats :: stats


text \<open>The first lines of the loop body: \<open>pdf\_links = project.get('pdf\_links', [])\<close>,
  \<open>document\_url = project.get('document\_url', '')\<close>, and
  \<open>pdf\_links.insert(0, document\_url)\<close> when \<open>document\_url\<close> is truthy. The result is
  \<open>pdf\_links\<close> and the project afterwards: the insert changes the list in place, so
  the project sees it when the list is the project's own and not the default.
  (\<open>pdf\_links'\<close> and \<open>document\_url'\<close> are the variables \<open>pdf\_links\<close> and
  \<open>document\_url\<close>.)\<close>

definition get_pdf_links :: \<open>pyval \<Rightarrow> exn + pyval \<times> pyval\<close> where
  \<open>get_pdf_links project =
     (case py_get project ''pdf_links'' (PList []) of
        Inl e \<Rightarrow> Inl e
      | Inr pdf_links' \<Rightarrow>
          (case py_get project ''document_url'' (PStr []) of
             Inl e \<Rightarrow> Inl e
           | Inr document_url' \<Rightarrow>
               if truthy document_url'
               then
                 (case pdf_links' of
                    PList links \<Rightarrow>
                      Inr (PList (document_url' # links),
                           case project of
                             PDict kvs \<Rightarrow>
                               (if map_of kvs ''pdf_links'' = None then project
                                else PDict (dict_set kvs ''pdf_links'' (PList (document_url' # links))))
                           | _ \<Rightarrow> project)
                  | _ \<Rightarrow> Inl AttributeError)
               else Inr (pdf_links', project)))\<close>





subsection \<open>A server and a library to run the downloader on\<close>

text \<open>An environment for examples. Its server answers every HEAD with status 200 and
  the content type \<open>ctype\<close>, every probing GET (timeout 30) with first bytes
  \<open>probe\<close>, and every other GET with the one chunk \<open>body\<close>. Its library is right for
  the inputs of the examples: titles of letters only, https URLs without a query.\<close>

definition example_env :: \<open>string \<Rightarrow> string \<Rightarrow> string \<Rightarrow> env\<close> where
  \<open>example_env ctype probe body =
     \<lparr>server = (\<lambda>before req.
         case req of
           HEAD url \<Rightarrow>
             Inr \<lparr>status_code = 200, content_type = Some ctype, content_length = None,
                  raw_read = Inr [], iter_content = [], iter_error = None\<rparr>
         | GET url timeout stream \<Rightarrow>
             Inr \<lparr>status_code = 200, content_type = Some ctype, content_length = None,
                  raw_read = Inr (if timeout = 30 then probe else body),
                  iter_content = [if timeout = 30 then probe else body], iter_error = None\<rparr>),
      can_open = (\<lambda>path. True),
      re_sub = (\<lambda>pattern repl s. s),
      urlparse_path = (\<lambda>url. Inr (dropWhile (\<lambda>c. c \<noteq> CHR ''/'') (drop 8 url))),
      basename = (\<lambda>path. rev (takeWhile (\<lambda>c. c \<noteq> CHR ''/'') (rev path))),
      path_join = (\<lambda>dir name. dir @ ''/'' @ name),
      repr = (\<lambda>v. ''...''),
      int_of_str = (\<lambda>s. Inr (int_of_digits s))\<rparr>\<close>

subsection \<open>Links found in a table row (improved\_pagination\_scraper.py)\<close>

text \<open>What Selenium answers for a row: its anchors, each with the attribute \<open>href\<close>
  (\<open>None\<close> when absent) and its text, and its buttons, each with the attribute
  \<open>onclick\<close>; any of the reads may raise.\<close>

record anchor =
  href :: \<open>exn + string option\<close>
  link_text :: \<open>exn + string\<close>

record button =
  onclick :: \<open>exn + string option\<close>

record row =
  row_anchors :: \<open>exn + anchor list\<close>
  row_buttons :: \<open>exn + button list\<close>

text \<open>\<open>any(k in s for k in keys)\<close>.\<close>

definition any_in :: \<open>string list \<Rightarrow> string \<Rightarrow> bool\<close> where
  \<open>any_in keys s = list_ex (\<lambda>k. contains k s) keys\<close>

text \<open>The pattern that takes a URL out of an \<open>onclick\<close>: a quote, a run without quotes
  that contains \<open>.pdf\<close>, a quote. The group is the run.\<close>

definition onclick_pdf :: \<open>string \<Rightarrow> string option\<close> where
  \<open>onclick_pdf s =
     map_option (\<lambda>m. group_text m 1 3)
       (re_search False [One Quote, Rep NotQuote 0, Lit ''.pdf'', Rep NotQuote 0, One Quote] s)\<close>

text \<open>The two loops of \<open>find\_pdf\_links\_in\_table\<close>, with \<open>pdf\_links\<close> as the
  accumulator: the exception that ended the loop, if any, and the list so far.\<close>

fun scan_anchors :: \<open>anchor list \<Rightarrow> string list \<Rightarrow> exn option \<times> string list\<close> where
  \<open>scan_anchors [] acc = (None, acc)\<close>
| \<open>scan_anchors (link # links) acc =
     (case href link of
        Inl e \<Rightarrow> (Some e, acc)
      | Inr None \<Rightarrow> scan_anchors links acc
      | Inr (Some h) \<Rightarrow>
          if h = [] then scan_anchors links acc
          else
            (let acc = (if any_in [''.pdf'', ''pdf'', ''download''] (lower h) then acc @ [h] else acc) in
             case link_text link of
               Inl e \<Rightarrow> (Some e, acc)
             | Inr t \<Rightarrow>
                 scan_anchors links
                   (if any_in [''pdf'', ''descargar'', ''download'', ''ver''] (lower t)
                    then acc @ [h] else acc)))\<close>

fun scan_buttons :: \<open>button list \<Rightarrow> string list \<Rightarrow> exn option \<times> string list\<close> where
  \<open>scan_buttons [] acc = (None, acc)\<close>
| \<open>scan_buttons (b # bs) acc =
     (case onclick b of
        Inl e \<Rightarrow> (Some e, acc)
      | Inr attr \<Rightarrow>
          (let oc = (case attr of None \<Rightarrow> [] | Some a \<Rightarrow> a) in
           if contains ''pdf'' (lower oc) \<or> contains ''download'' (lower oc)
           then (case onclick_pdf oc of
                   Some url \<Rightarrow> scan_buttons bs (acc @ [url])
                 | None \<Rightarrow> scan_buttons bs acc)
           else scan_buttons bs acc))\<close>

text \<open>\<open>find\_pdf\_links\_in\_table\<close>: whatever was collected when an exception ends the
  scan is returned.\<close>

definition find_pdf_links_in_table :: \<open>row \<Rightarrow> string list\<close> where
  \<open>find_pdf_links_in_table row_element =
     (case row_anchors row_element of
        Inl e \<Rightarrow> []
      | Inr links \<Rightarrow>
          (case scan_anchors links [] of
             (Some e, acc) \<Rightarrow> acc
           | (None, acc) \<Rightarrow>
               (case row_buttons row_element of
                  Inl e \<Rightarrow> acc
                | Inr buttons \<Rightarrow> snd (scan_buttons buttons acc))))\<close>

section \<open>The run (improved\_pagination\_scraper.py)\<close>

text \<open>
  What a call made by \<open>start\_scraping\<close> does in one run: it returns, it raises an
  \<open>Exception\<close>, or the user's \<open>KeyboardInterrupt\<close> arrives while it runs. The
  interrupt derives from \<open>BaseException\<close>: no \<open>except Exception\<close> catches it.
\<close>

datatype 'a outcome = Returns 'a | Raises exn | Interrupted

text \<open>How a function of the run ends: with a value, or with the interrupt going on to
  its caller.\<close>

datatype 'a completion = Normal 'a | Interrupt

text \<open>The outcomes of one run, call by call: the constructor's \<open>mkdir\<close>,
  \<open>webdriver.Chrome(...)\<close>, \<open>set\_window\_size\<close>, the steps of the scraper (each catches
  its own exceptions in the source; here it may also raise), the calls of the data
  processor and \<open>driver.quit()\<close>.\<close>

record run =
  mkdir :: \<open>unit outcome\<close>
  chrome :: \<open>unit outcome\<close>
  set_window_size :: \<open>unit outcome\<close>
  navigate_to_iframe :: \<open>bool outcome\<close>
  find_and_fill_date_inputs :: \<open>bool outcome\<close>
  find_and_click_submit_button :: \<open>bool outcome\<close>
  scrape_all_pages :: \<open>project list outcome\<close>
  download_pdfs_for_projects :: \<open>unit outcome\<close>
  extract_project_info :: \<open>project list outcome\<close>
  validate_data :: \<open>unit outcome\<close>
  export_data :: \<open>unit outcome\<close>
  generate_summary :: \<open>unit outcome\<close>
  save_summary :: \<open>unit outcome\<close>
  quit :: \<open>unit outcome\<close>

text \<open>The state of a run: the scraper, whose \<open>driver\<close> tells whether \<open>self.driver\<close> is
  set, and whether a browser that was launched is still running.\<close>

type_synonym run_state = \<open>scraper \<times> bool\<close>

text \<open>\<open>setup\_driver\<close>: the browser runs from the moment \<open>webdriver.Chrome\<close> returns.\<close>

definition setup_driver :: \<open>run \<Rightarrow> run_state \<Rightarrow> bool completion \<times> run_state\<close> where
  \<open>setup_driver r s =
     (case chrome r of
        Raises e \<Rightarrow> (Normal False, s)
      | Interrupted \<Rightarrow> (Interrupt, s)
      | Returns u \<Rightarrow>
          (let s = ((fst s)\<lparr>driver := True\<rparr>, True) in
           case set_window_size r of
             Returns u \<Rightarrow> (Normal True, s)
           | Raises e \<Rightarrow> (Normal False, s)
           | Interrupted \<Rightarrow> (Interrupt, s)))\<close>

text \<open>\<open>close\_driver\<close>: \<open>self.driver = None\<close> comes after \<open>quit()\<close> has returned.\<close>

definition close_driver :: \<open>run \<Rightarrow> run_state \<Rightarrow> unit completion \<times> run_state\<close> where
  \<open>close_driver r s =
     (if driver (fst s)
      then (case quit r of
              Returns u \<Rightarrow> (Normal (), ((fst s)\<lparr>driver := False\<rparr>, False))
            | Raises e \<Rightarrow> (Normal (), s)
            | Interrupted \<Rightarrow> (Interrupt, s))
      else (Normal (), s))\<close>

text \<open>\<open>self.close\_driver(); return result\<close>.\<close>

definition close_and_return ::
  \<open>run \<Rightarrow> run_state \<Rightarrow> project list option \<Rightarrow> project list option completion \<times> run_state\<close> where
  \<open>close_and_return r s result =
     (case close_driver r s of
        (Interrupt, s') \<Rightarrow> (Interrupt, s')
      | (Normal u, s') \<Rightarrow> (Normal result, s'))\<close>

text \<open>A call inside the \<open>try\<close> of \<open>start\_scraping\<close>: on a return the run goes on, on an
  exception the handler closes the driver and returns \<open>None\<close>, on the interrupt the
  function is left at once.\<close>

definition call ::
  \<open>run \<Rightarrow> run_state \<Rightarrow> 'a outcome \<Rightarrow> ('a \<Rightarrow> project list option completion \<times> run_state)
     \<Rightarrow> project list option completion \<times> run_state\<close> where
  \<open>call r s oc continue =
     (case oc of
        Returns v \<Rightarrow> continue v
      | Raises e \<Rightarrow> close_and_return r s None
      | Interrupted \<Rightarrow> (Interrupt, s))\<close>

definition start_scraping ::
  \<open>run \<Rightarrow> bool \<Rightarrow> run_state \<Rightarrow> project list option completion \<times> run_state\<close> where
  \<open>start_scraping r download_pdfs s =
     (case setup_driver r s of
        (Interrupt, s) \<Rightarrow> (Interrupt, s)
      | (Normal False, s) \<Rightarrow> (Normal None, s)
      | (Normal True, s) \<Rightarrow>
          call r s (navigate_to_iframe r) (\<lambda>reached.
            if \<not> reached then close_and_return r s None
            else
              call r s (find_and_fill_date_inputs r) (\<lambda>date_filled.
              call r s (find_and_click_submit_button r) (\<lambda>submit_clicked.
              call r s (scrape_all_pages r) (\<lambda>all_projects.
                if all_projects = [] then close_and_return r s None
                else
                  call r s (if download_pdfs then download_pdfs_for_projects r else Returns ())
                    (\<lambda>pdf_stats.
                  call r s (extract_project_info r) (\<lambda>processed_data.
                  call r s (validate_data r) (\<lambda>validation.
                  call r s (export_data r) (\<lambda>exported_files.
                  call r s (generate_summary r) (\<lambda>summary.
                  call r s (save_summary r) (\<lambda>saved.
                    close_and_return r s (Some processed_data))))))))))))\<close>

text \<open>How \<open>main\<close> ends: after \<open>start\_scraping\<close> returned, in its handler of
  \<open>KeyboardInterrupt\<close>, or in its handler of \<open>Exception\<close>.\<close>

datatype ending = Finished \<open>project list option\<close> | Interrupted_by_user | Unexpected_error

text \<open>\<open>main\<close>: a new scraper (no driver, no browser), then \<open>start\_scraping\<close>. Its two
  handlers only log.\<close>

definition main :: \<open>run \<Rightarrow> bool \<Rightarrow> ending \<times> run_state\<close> where
  \<open>main r download_pdfs =
     (let s = (\<lparr>driver = False, current_page = 1, seen_project_ids = {}\<rparr>, False) in
      case (if download_pdfs then mkdir r else Returns ()) of
        Raises e \<Rightarrow> (Unexpected_error, s)
      | Interrupted \<Rightarrow> (Interrupted_by_user, s)
      | Returns u \<Rightarrow>
          (case start_scraping r download_pdfs s of
             (Normal results, s') \<Rightarrow> (Finished results, s')
           | (Interrupt, s') \<Rightarrow> (Interrupted_by_user, s')))\<close>

text \<open>A run in which every call returns, with one project found.\<close>

definition quiet_run :: run where
  \<open>quiet_run =
     \<lparr>mkdir = Returns (), chrome = Returns (), set_window_size = Returns (),
      navigate_to_iframe = Returns True, find_and_fill_date_inputs = Returns True,
      find_and_click_submit_button = Returns True,
      scrape_all_pages = Returns
        [\<lparr>id' = ''page_1_table_1_row_1'', title = ''Ley'', description = ''Salud'', status = [],
          date_created = [], author = [], committee = [], document_url = [], page_number = 1,
          source = ''improved_pagination_table'', pdf_links = None\<rparr>],
      download_pdfs_for_projects = Returns (),
      extract_project_info = Returns
        [\<lparr>id' = ''page_1_table_1_row_1'', title = ''Ley'', description = ''Salud'', status = [],
          date_created = [], author = [], committee = [], document_url = [], page_number = 1,
          source = ''improved_pagination_table'', pdf_links = None\<rparr>],
      validate_data = Returns (), export_data = Returns (), generate_summary = Returns (),
      save_summary = Returns (), quit = Returns ()\<rparr>\<close>

text \<open>Two readings of how a function of the run ended: ended normally, the browser is
  not running; left by the interrupt, the browser is running.\<close>

definition released :: \<open>'a completion \<times> run_state \<Rightarrow> bool\<close> where
  \<open>released res = (case res of (Normal v, s) \<Rightarrow> \<not> snd s | (Interrupt, s) \<Rightarrow> True)\<close>

definition leaked :: \<open>'a completion \<times> run_state \<Rightarrow> bool\<close> where
  \<open>leaked res = (case res of (Normal v, s) \<Rightarrow> True | (Interrupt, s) \<Rightarrow> snd s)\<close>

section \<open>Verified properties\<close>

subsection \<open>Pagination\<close>

lemma first_some_None: \<open>first_some f xs = None \<longleftrightarrow> (\<forall>x\<in>set xs. f x = None)\<close>
  by (induction xs) (auto split: option.splits)

text \<open>
  Claim C2. When the page source can be read and none of the four page-count patterns
  and none of the four total-records patterns matches it, the discovery function returns
  the fixed pair of 2742 records and 275 pages, with 10 items per page and current
  page 1.
\<close>

theorem undiscoverable_pagination_falls_back:
  assumes \<open>driver self\<close>
    and \<open>page_source br p = Inr page_content\<close>
    and \<open>\<forall>pat\<in>set page_patterns. re_search True (fst pat) page_content = None\<close>
    and \<open>\<forall>pat\<in>set total_patterns. re_search True (fst pat) page_content = None\<close>
  shows \<open>get_total_records_and_pages br self p =
    \<lparr>total_records = 2742, total_pages = 275, items_per_page = 10, info_current_page = Some 1\<rparr>\<close>
proof -
  have \<open>first_some (page_match page_content) page_patterns = None\<close>
    using assms(3) by (auto simp: first_some_None page_match_def)
  moreover have \<open>first_some (total_match page_content) total_patterns = None\<close>
    using assms(4) by (auto simp: first_some_None total_match_def)
  ultimately show ?thesis
    using assms(1,2) by (simp add: get_total_records_and_pages_def default_pagination_info_def)
qed

theorem undiscoverable_pagination_falls_back_witness:
  \<open>get_total_records_and_pages
     \<lparr>page_source = Inr, current_url = (\<lambda>p. Inr ''https://leyes.asambleanacional.gob.ec?vhf=1''),
      find_elements = (\<lambda>l s p. Inr ([] :: nat list)), is_displayed = (\<lambda>e p. Inr True),
      is_enabled = (\<lambda>e p. Inr True), elem_text = (\<lambda>e p. Inr []),
      get_attribute = (\<lambda>e a p. Inr None), exec = (\<lambda>c p. (None, p)), sleep = id\<rparr>
     \<lparr>driver = True, current_page = 1, seen_project_ids = {}\<rparr> ''Proyectos de ley'' =
   \<lparr>total_records = 2742, total_pages = 275, items_per_page = 10, info_current_page = Some 1\<rparr>\<close>
proof -
  have h3: \<open>\<forall>pat\<in>set page_patterns. re_search True (fst pat) ''Proyectos de ley'' = None\<close>
    by code_simp
  have h4: \<open>\<forall>pat\<in>set total_patterns. re_search True (fst pat) ''Proyectos de ley'' = None\<close>
    by code_simp
  show ?thesis
    by (rule undiscoverable_pagination_falls_back [OF _ _ h3 h4]) simp_all
qed

subsection \<open>Duplicate rows\<close>








subsection \<open>Advancing a page\<close>

















subsection \<open>Acquisition of one PDF\<close>

lemma log_msg_files [simp]: \<open>files (log_msg l m w) = files w\<close>
  by (simp add: log_msg_def)

lemma log_msg_requests [simp]: \<open>requests (log_msg l m w) = requests w\<close>
  by (simp add: log_msg_def)

lemma log_msg_logs [simp]: \<open>logs (log_msg l m w) = logs w @ [(l, m)]\<close>
  by (simp add: log_msg_def)

lemma write_chunks_written:
  \<open>fst (write_chunks total_size chunks written lg) = written @ concat chunks\<close>
  by (induction chunks arbitrary: written lg) auto

lemma test_pdf_access_files:
  \<open>test_pdf_access env url w = (r, w') \<Longrightarrow> files w' = files w\<close>
  by (auto simp: test_pdf_access_def probe_failed_def http_def Let_def
      split: sum.splits prod.splits option.splits if_splits)

text \<open>The probe sends the HEAD request and at most the probing GET.\<close>

lemma test_pdf_access_requests:
  \<open>test_pdf_access env url w = (r, w') \<Longrightarrow>
     requests w' = requests w @ [HEAD url] \<or> requests w' = requests w @ [HEAD url, GET url 30 True]\<close>
  by (auto simp: test_pdf_access_def probe_failed_def http_def Let_def
      split: sum.splits prod.splits option.splits if_splits)

text \<open>A HEAD request that raises, a status other than 200, or a content type without
  \<open>pdf\<close> for a URL that does not end in \<open>.pdf\<close>: the probe says no after that one
  request.\<close>

lemma test_pdf_access_head_refuses:
  assumes \<open>(\<exists>e. server env (requests w) (HEAD url) = Inl e)
      \<or> (\<exists>r. server env (requests w) (HEAD url) = Inr r
            \<and> (status_code r \<noteq> 200
               \<or> (\<not> contains ''pdf'' (lower (case content_type r of None \<Rightarrow> [] | Some t \<Rightarrow> t))
                  \<and> \<not> endswith (lower url) ''.pdf'')))\<close>
  shows \<open>\<exists>reason w'. test_pdf_access env url w = ((False, reason), w')
      \<and> requests w' = requests w @ [HEAD url]\<close>
  using assms
  by (auto simp: test_pdf_access_def probe_failed_def http_def Let_def
      split: sum.splits prod.splits option.splits if_splits)

lemma download_existing:
  assumes \<open>pdf_filepath env dir pdf_url project_info = Inr (url, filename, filepath)\<close>
    and \<open>files w filepath = Some bytes\<close> and \<open>bytes \<noteq> []\<close>
  shows \<open>download_pdf env dir pdf_url project_info w
    = (Some filepath, log_msg INFO ''PDF already exists'' w)\<close>
  using assms by (simp add: download_pdf_def download_pdf_body_def)

text \<open>A path is returned only for a file that is on the disk and not empty.\<close>

lemma download_pdf_body_Some:
  assumes \<open>download_pdf_body env dir pdf_url project_info w = (Inr (Some p), w')\<close>
  shows \<open>\<exists>url filename bytes. pdf_filepath env dir pdf_url project_info = Inr (url, filename, p)
      \<and> files w' p = Some bytes \<and> bytes \<noteq> []\<close>
  using assms
  by (auto simp: download_pdf_body_def Let_def http_def
      split: sum.splits prod.splits option.splits if_splits bool.splits)

lemma download_pdf_Some:
  assumes \<open>download_pdf env dir pdf_url project_info w = (Some p, w')\<close>
  shows \<open>\<exists>url filename bytes. pdf_filepath env dir pdf_url project_info = Inr (url, filename, p)
      \<and> files w' p = Some bytes \<and> bytes \<noteq> []\<close>
proof -
  from assms have \<open>download_pdf_body env dir pdf_url project_info w = (Inr (Some p), w')\<close>
    by (auto simp: download_pdf_def split: prod.splits sum.splits)
  then show ?thesis by (rule download_pdf_body_Some)
qed

text \<open>When the probe says no, nothing is returned and nothing more is requested.\<close>

lemma download_not_accessible:
  assumes \<open>pdf_filepath env dir pdf_url project_info = Inr (url, filename, filepath)\<close>
    and \<open>files w filepath = None \<or> files w filepath = Some []\<close>
    and \<open>test_pdf_access env url (log_msg INFO ''URL'' (log_msg INFO ''Downloading PDF'' w))
       = ((False, reason), w1)\<close>
  shows \<open>download_pdf env dir pdf_url project_info w
    = (None, log_msg WARNING ''PDF not accessible'' w1)\<close>
  using assms by (auto simp: download_pdf_def download_pdf_body_def Let_def)

text \<open>
  Claim C3. When a file that is not empty is at the path derived from the record and
  the URL, the acquisition returns that path, sends no request and leaves the files as
  they are. Hence after any call that returned a path, a second call with the same
  arguments returns the same path, sends no request and leaves the files as they are.
\<close>

theorem existing_file_returned_without_request:
  assumes \<open>pdf_filepath env dir pdf_url project_info = Inr (url, filename, filepath)\<close>
    and \<open>files w filepath = Some bytes\<close> and \<open>bytes \<noteq> []\<close>
  shows \<open>(\<exists>w'. download_pdf env dir pdf_url project_info w = (Some filepath, w')
        \<and> requests w' = requests w \<and> files w' = files w)
    \<and> (\<forall>v p v1. download_pdf env dir pdf_url project_info v = (Some p, v1) \<longrightarrow>
          (\<exists>v2. download_pdf env dir pdf_url project_info v1 = (Some p, v2)
             \<and> requests v2 = requests v1 \<and> files v2 = files v1))\<close>
proof (intro conjI allI impI)
  show \<open>\<exists>w'. download_pdf env dir pdf_url project_info w = (Some filepath, w')
      \<and> requests w' = requests w \<and> files w' = files w\<close>
    using download_existing [OF assms] by simp
next
  fix v p v1
  assume \<open>download_pdf env dir pdf_url project_info v = (Some p, v1)\<close>
  from download_pdf_Some [OF this] obtain url' filename' bytes' where
    \<open>pdf_filepath env dir pdf_url project_info = Inr (url', filename', p)\<close>
    \<open>files v1 p = Some bytes'\<close> \<open>bytes' \<noteq> []\<close>
    by blast
  from download_existing [OF this]
  show \<open>\<exists>v2. download_pdf env dir pdf_url project_info v1 = (Some p, v2)
      \<and> requests v2 = requests v1 \<and> files v2 = files v1\<close>
    by simp
qed

theorem existing_file_returned_without_request_witness:
  \<open>fst (download_pdf (example_env ''application/pdf'' ''%PDF-1.4'' ''%PDF-1.4 body'')
          ''data/improved_pdfs'' (PStr ''https://ppless.asambleanacional.gob.ec/docs/ley.pdf'')
          (PDict [(''id'', PStr ''page_1_table_1_row_1''), (''title'', PStr ''Ley'')])
          \<lparr>files = [''data/improved_pdfs/page_1_table_1_row_1_ley.pdf'' \<mapsto> ''%PDF-1.4 old''],
           requests = [], logs = []\<rparr>)
     = Some ''data/improved_pdfs/page_1_table_1_row_1_ley.pdf''
   \<and> requests (snd (download_pdf (example_env ''application/pdf'' ''%PDF-1.4'' ''%PDF-1.4 body'')
          ''data/improved_pdfs'' (PStr ''https://ppless.asambleanacional.gob.ec/docs/ley.pdf'')
          (PDict [(''id'', PStr ''page_1_table_1_row_1''), (''title'', PStr ''Ley'')])
          \<lparr>files = [''data/improved_pdfs/page_1_table_1_row_1_ley.pdf'' \<mapsto> ''%PDF-1.4 old''],
           requests = [], logs = []\<rparr>)) = []\<close>
proof -
  have fp: \<open>pdf_filepath (example_env ''application/pdf'' ''%PDF-1.4'' ''%PDF-1.4 body'')
      ''data/improved_pdfs'' (PStr ''https://ppless.asambleanacional.gob.ec/docs/ley.pdf'')
      (PDict [(''id'', PStr ''page_1_table_1_row_1''), (''title'', PStr ''Ley'')])
    = Inr (''https://ppless.asambleanacional.gob.ec/docs/ley.pdf'', ''page_1_table_1_row_1_ley.pdf'',
           ''data/improved_pdfs/page_1_table_1_row_1_ley.pdf'')\<close>
    by code_simp
  from existing_file_returned_without_request [OF fp,
      of \<open>\<lparr>files = [''data/improved_pdfs/page_1_table_1_row_1_ley.pdf'' \<mapsto> ''%PDF-1.4 old''],
           requests = [], logs = []\<rparr>\<close> \<open>''%PDF-1.4 old''\<close>]
  show ?thesis by auto
qed

text \<open>
  Claim C5, as amended. With no file at the record's path yet: when the HEAD request
  of the probe raises, answers a status other than 200, or answers a content type
  without \<open>pdf\<close> for a URL that does not end in \<open>.pdf\<close> (in lower case), the
  acquisition returns \<open>None\<close> having sent that one request; and whenever the probe says
  no, the acquisition returns \<open>None\<close> and never sends the download request (the GET
  with timeout 60). A content type without \<open>pdf\<close> does not by itself stop the download
  of a URL that ends in \<open>.pdf\<close>.
\<close>

theorem refused_probe_stops_download:
  assumes \<open>pdf_filepath env dir pdf_url project_info = Inr (url, filename, filepath)\<close>
    and \<open>files w filepath = None \<or> files w filepath = Some []\<close>
  shows \<open>(((\<exists>e. server env (requests w) (HEAD url) = Inl e)
         \<or> (\<exists>r. server env (requests w) (HEAD url) = Inr r
              \<and> (status_code r \<noteq> 200
                 \<or> (\<not> contains ''pdf'' (lower (case content_type r of None \<Rightarrow> [] | Some t \<Rightarrow> t))
                    \<and> \<not> endswith (lower url) ''.pdf''))))
        \<longrightarrow> (\<exists>w'. download_pdf env dir pdf_url project_info w = (None, w')
               \<and> requests w' = requests w @ [HEAD url] \<and> files w' = files w))
    \<and> (\<forall>reason w1.
          test_pdf_access env url (log_msg INFO ''URL'' (log_msg INFO ''Downloading PDF'' w))
            = ((False, reason), w1)
          \<longrightarrow> (\<exists>w'. download_pdf env dir pdf_url project_info w = (None, w')
                 \<and> requests w' = requests w1 \<and> files w' = files w
                 \<and> GET url 60 True \<notin> set (drop (length (requests w)) (requests w'))))\<close>
proof (intro conjI allI impI)
  let ?w0 = \<open>log_msg INFO ''URL'' (log_msg INFO ''Downloading PDF'' w)\<close>
  {
    assume \<open>(\<exists>e. server env (requests w) (HEAD url) = Inl e)
         \<or> (\<exists>r. server env (requests w) (HEAD url) = Inr r
              \<and> (status_code r \<noteq> 200
                 \<or> (\<not> contains ''pdf'' (lower (case content_type r of None \<Rightarrow> [] | Some t \<Rightarrow> t))
                    \<and> \<not> endswith (lower url) ''.pdf'')))\<close>
    then have \<open>(\<exists>e. server env (requests ?w0) (HEAD url) = Inl e)
         \<or> (\<exists>r. server env (requests ?w0) (HEAD url) = Inr r
              \<and> (status_code r \<noteq> 200
                 \<or> (\<not> contains ''pdf'' (lower (case content_type r of None \<Rightarrow> [] | Some t \<Rightarrow> t))
                    \<and> \<not> endswith (lower url) ''.pdf'')))\<close>
      by simp
    from test_pdf_access_head_refuses [OF this] obtain reason w1 where
      t: \<open>test_pdf_access env url ?w0 = ((False, reason), w1)\<close>
      and r: \<open>requests w1 = requests ?w0 @ [HEAD url]\<close>
      by blast
    from download_not_accessible [OF assms t] r test_pdf_access_files [OF t]
    show \<open>\<exists>w'. download_pdf env dir pdf_url project_info w = (None, w')
        \<and> requests w' = requests w @ [HEAD url] \<and> files w' = files w\<close>
      by simp
  }
  {
    fix reason w1
    assume t: \<open>test_pdf_access env url ?w0 = ((False, reason), w1)\<close>
    from test_pdf_access_requests [OF t]
    have \<open>GET url 60 True \<notin> set (drop (length (requests w)) (requests w1))\<close>
      by auto
    with download_not_accessible [OF assms t] test_pdf_access_files [OF t]
    show \<open>\<exists>w'. download_pdf env dir pdf_url project_info w = (None, w')
        \<and> requests w' = requests w1 \<and> files w' = files w
        \<and> GET url 60 True \<notin> set (drop (length (requests w)) (requests w'))\<close>
      by simp
  }
qed

theorem refused_probe_stops_download_witness:
  \<open>\<exists>w'. download_pdf (example_env ''text/html'' ''<html>'' ''<html>login</html>'')
          ''data/improved_pdfs'' (PStr ''https://ppless.asambleanacional.gob.ec/docs/ver'')
          (PDict [(''id'', PStr ''page_1_table_1_row_1''), (''title'', PStr ''Ley'')])
          \<lparr>files = Map.empty, requests = [], logs = []\<rparr> = (None, w')
     \<and> requests w' = [HEAD ''https://ppless.asambleanacional.gob.ec/docs/ver'']
     \<and> files w' = Map.empty\<close>
proof -
  have fp: \<open>pdf_filepath (example_env ''text/html'' ''<html>'' ''<html>login</html>'')
      ''data/improved_pdfs'' (PStr ''https://ppless.asambleanacional.gob.ec/docs/ver'')
      (PDict [(''id'', PStr ''page_1_table_1_row_1''), (''title'', PStr ''Ley'')])
    = Inr (''https://ppless.asambleanacional.gob.ec/docs/ver'', ''page_1_table_1_row_1_Ley.pdf'',
           ''data/improved_pdfs/page_1_table_1_row_1_Ley.pdf'')\<close>
    by code_simp
  have reply: \<open>server (example_env ''text/html'' ''<html>'' ''<html>login</html>'') []
        (HEAD ''https://ppless.asambleanacional.gob.ec/docs/ver'')
      = Inr \<lparr>status_code = 200, content_type = Some ''text/html'', content_length = None,
             raw_read = Inr [], iter_content = [], iter_error = None\<rparr>\<close>
    by code_simp
  have no_pdf: \<open>\<not> contains ''pdf'' (lower ''text/html'')
      \<and> \<not> endswith (lower ''https://ppless.asambleanacional.gob.ec/docs/ver'') ''.pdf''\<close>
    by code_simp
  from reply no_pdf
  have head: \<open>\<exists>r. server (example_env ''text/html'' ''<html>'' ''<html>login</html>'') []
        (HEAD ''https://ppless.asambleanacional.gob.ec/docs/ver'') = Inr r
      \<and> (status_code r \<noteq> 200
         \<or> (\<not> contains ''pdf'' (lower (case content_type r of None \<Rightarrow> [] | Some t \<Rightarrow> t))
            \<and> \<not> endswith (lower ''https://ppless.asambleanacional.gob.ec/docs/ver'') ''.pdf''))\<close>
    by simp
  from refused_probe_stops_download [OF fp,
      of \<open>\<lparr>files = Map.empty, requests = [], logs = []\<rparr>\<close>, THEN conjunct1] head
  show ?thesis by simp
qed

text \<open>The probe of a URL that ends in \<open>.pdf\<close> reports the content type \<open>text/html\<close>;
  the file is downloaded all the same, with the download request sent.\<close>

theorem html_content_type_still_downloaded:
  \<open>server (example_env ''text/html'' ''%PDF-1.4'' ''%PDF-1.4 body'') []
       (HEAD ''https://ppless.asambleanacional.gob.ec/docs/ley.pdf'')
     = Inr \<lparr>status_code = 200, content_type = Some ''text/html'', content_length = None,
            raw_read = Inr [], iter_content = [], iter_error = None\<rparr>
   \<and> fst (download_pdf (example_env ''text/html'' ''%PDF-1.4'' ''%PDF-1.4 body'')
          ''data/improved_pdfs'' (PStr ''https://ppless.asambleanacional.gob.ec/docs/ley.pdf'')
          (PDict [(''id'', PStr ''page_1_table_1_row_1''), (''title'', PStr ''Ley'')])
          \<lparr>files = Map.empty, requests = [], logs = []\<rparr>)
     = Some ''data/improved_pdfs/page_1_table_1_row_1_ley.pdf''
   \<and> requests (snd (download_pdf (example_env ''text/html'' ''%PDF-1.4'' ''%PDF-1.4 body'')
          ''data/improved_pdfs'' (PStr ''https://ppless.asambleanacional.gob.ec/docs/ley.pdf'')
          (PDict [(''id'', PStr ''page_1_table_1_row_1''), (''title'', PStr ''Ley'')])
          \<lparr>files = Map.empty, requests = [], logs = []\<rparr>))
     = [HEAD ''https://ppless.asambleanacional.gob.ec/docs/ley.pdf'',
        GET ''https://ppless.asambleanacional.gob.ec/docs/ley.pdf'' 30 True,
        GET ''https://ppless.asambleanacional.gob.ec/docs/ley.pdf'' 60 True]\<close>
  by code_simp

text \<open>
  Claim C4. Let the acquisition reach the download: no file yet at the record's path,
  the probe says yes, the download request is answered with a success status and a
  content type or URL that indicates PDF, the length header is read, the file can be
  opened, and the stream ends without an error. Then, with nothing written, the file
  is deleted and \<open>None\<close> is returned; with bytes written whose first four are not
  \<open>%PDF\<close>, a warning is logged, the file stays with those bytes, and its path is
  returned.
\<close>

theorem downloaded_file_checked:
  assumes \<open>pdf_filepath env dir pdf_url project_info = Inr (url, filename, filepath)\<close>
    and \<open>files w filepath = None \<or> files w filepath = Some []\<close>
    and \<open>test_pdf_access env url (log_msg INFO ''URL'' (log_msg INFO ''Downloading PDF'' w))
       = ((True, reason), w1)\<close>
    and \<open>server env (requests w1) (GET url 60 True) = Inr resp\<close>
    and \<open>raise_for_status resp = None\<close>
    and \<open>contains ''pdf'' (lower (case content_type resp of None \<Rightarrow> [] | Some t \<Rightarrow> t))
       \<or> endswith (lower url) ''.pdf''\<close>
    and \<open>(case content_length resp of None \<Rightarrow> Inr 0 | Some l \<Rightarrow> int_of_str env l) = Inr total_size\<close>
    and \<open>can_open env filepath\<close>
    and \<open>iter_error resp = None\<close>
  shows \<open>(concat (iter_content resp) = [] \<longrightarrow>
        (\<exists>w'. download_pdf env dir pdf_url project_info w = (None, w')
           \<and> files w' filepath = None))
    \<and> (concat (iter_content resp) \<noteq> [] \<and> take 4 (concat (iter_content resp)) \<noteq> ''%PDF'' \<longrightarrow>
        (\<exists>w'. download_pdf env dir pdf_url project_info w = (Some filepath, w')
           \<and> files w' filepath = Some (concat (iter_content resp))
           \<and> (WARNING, ''Downloaded file doesn't start with PDF header'') \<in> set (logs w')))\<close>
proof -
  have header: \<open>startswith (take 4 s) ''%PDF'' \<longleftrightarrow> take 4 s = ''%PDF''\<close> for s
    by (simp add: startswith_def eval_nat_numeral)
  obtain written progress where
    wc: \<open>write_chunks total_size (iter_content resp) [] [] = (written, progress)\<close>
    by (cases \<open>write_chunks total_size (iter_content resp) [] []\<close>) auto
  with write_chunks_written [of total_size \<open>iter_content resp\<close> \<open>[]\<close> \<open>[]\<close>]
  have written: \<open>written = concat (iter_content resp)\<close> by simp
  show ?thesis
    using assms wc written
    by (auto simp: download_pdf_def download_pdf_body_def Let_def http_def header)
qed

theorem downloaded_file_checked_witness:
  \<open>\<exists>w'. download_pdf (example_env ''application/pdf'' ''%PDF-1.4'' ''<html>login</html>'')
          ''data/improved_pdfs'' (PStr ''https://ppless.asambleanacional.gob.ec/docs/ver'')
          (PDict [(''id'', PStr ''page_1_table_1_row_1''), (''title'', PStr ''Ley'')])
          \<lparr>files = Map.empty, requests = [], logs = []\<rparr>
        = (Some ''data/improved_pdfs/page_1_table_1_row_1_Ley.pdf'', w')
     \<and> files w' ''data/improved_pdfs/page_1_table_1_row_1_Ley.pdf'' = Some ''<html>login</html>''
     \<and> (WARNING, ''Downloaded file doesn't start with PDF header'') \<in> set (logs w')\<close>
proof -
  let ?env = \<open>example_env ''application/pdf'' ''%PDF-1.4'' ''<html>login</html>''\<close>
  let ?url = \<open>''https://ppless.asambleanacional.gob.ec/docs/ver''\<close>
  let ?w = \<open>\<lparr>files = Map.empty, requests = [], logs = []\<rparr> :: dworld\<close>
  let ?w0 = \<open>log_msg INFO ''URL'' (log_msg INFO ''Downloading PDF'' ?w)\<close>
  let ?resp = \<open>\<lparr>status_code = 200, content_type = Some ''application/pdf'', content_length = None,
      raw_read = Inr ''<html>login</html>'', iter_content = [''<html>login</html>''],
      iter_error = None\<rparr>\<close>
  have fp: \<open>pdf_filepath ?env ''data/improved_pdfs'' (PStr ?url)
      (PDict [(''id'', PStr ''page_1_table_1_row_1''), (''title'', PStr ''Ley'')])
    = Inr (?url, ''page_1_table_1_row_1_Ley.pdf'', ''data/improved_pdfs/page_1_table_1_row_1_Ley.pdf'')\<close>
    by code_simp
  have yes: \<open>fst (fst (test_pdf_access ?env ?url ?w0)) = True\<close>
    by code_simp
  obtain reason w1 where probe: \<open>test_pdf_access ?env ?url ?w0 = ((True, reason), w1)\<close>
    using yes by (cases \<open>test_pdf_access ?env ?url ?w0\<close>) auto
  have reply: \<open>server ?env (requests w1) (GET ?url 60 True) = Inr ?resp\<close>
    by (simp add: example_env_def)
  have ok: \<open>raise_for_status ?resp = None\<close>
    by (simp add: raise_for_status_def)
  have pdf: \<open>contains ''pdf'' (lower ''application/pdf'')\<close>
    by code_simp
  have opens: \<open>can_open ?env ''data/improved_pdfs/page_1_table_1_row_1_Ley.pdf''\<close>
    by (simp add: example_env_def)
  have not_pdf: \<open>take 4 ''<html>login</html>'' \<noteq> ''%PDF''\<close>
    by simp
  from downloaded_file_checked [OF fp _ probe reply ok _ _ opens, of 0, THEN conjunct2] pdf not_pdf
  show ?thesis by simp
qed

subsection \<open>Candidate links\<close>

lemma map_of_dict_set: \<open>map_of (dict_set kvs k v) k = Some v\<close>
  by (induction kvs) auto

lemma scan_anchors_sound:
  \<open>set (snd (scan_anchors links acc))
     \<subseteq> set acc \<union> {h. \<exists>a\<in>set links. href a = Inr (Some h)}\<close>
proof (induction links arbitrary: acc)
  case Nil
  then show ?case by simp
next
  case (Cons link links)
  show ?case
  proof (cases \<open>href link\<close>)
    case (Inl e)
    then show ?thesis by simp
  next
    case (Inr attr)
    show ?thesis
    proof (cases attr)
      case None
      with Inr Cons.IH [of acc] show ?thesis by auto
    next
      case (Some h)
      show ?thesis
      proof (cases \<open>link_text link\<close>)
        case (Inl e)
        with Inr Some Cons.IH [of acc] show ?thesis by (auto simp: Let_def)
      next
        case t: (Inr t)
        let ?acc1 = \<open>if any_in [''.pdf'', ''pdf'', ''download''] (lower h) then acc @ [h] else acc\<close>
        let ?acc2 = \<open>if any_in [''pdf'', ''descargar'', ''download'', ''ver''] (lower t)
                     then ?acc1 @ [h] else ?acc1\<close>
        have \<open>set ?acc2 \<subseteq> set acc \<union> {h}\<close> by auto
        with Cons.IH [of ?acc2] Cons.IH [of acc] Inr Some t show ?thesis
          by (auto simp: Let_def)
      qed
    qed
  qed
qed

lemma scan_buttons_sound:
  \<open>set (snd (scan_buttons bs acc))
     \<subseteq> set acc \<union> {u. \<exists>b\<in>set bs. \<exists>oc. onclick b = Inr (Some oc) \<and> onclick_pdf oc = Some u}\<close>
proof (induction bs arbitrary: acc)
  case Nil
  then show ?case by simp
next
  case (Cons b bs)
  show ?case
  proof (cases \<open>onclick b\<close>)
    case (Inl e)
    then show ?thesis by simp
  next
    case (Inr attr)
    show ?thesis
    proof (cases attr)
      case None
      have \<open>onclick_pdf [] = None\<close> by code_simp
      with Inr None Cons.IH [of acc] show ?thesis
        by (auto simp: Let_def split: option.splits)
    next
      case (Some oc)
      show ?thesis
      proof (cases \<open>onclick_pdf oc\<close>)
        case None
        with Inr Some Cons.IH [of acc] show ?thesis by (auto simp: Let_def)
      next
        case u: (Some u)
        with Inr Some Cons.IH [of acc] Cons.IH [of \<open>acc @ [u]\<close>] show ?thesis
          by (auto simp: Let_def)
      qed
    qed
  qed
qed

text \<open>
  Claim C7, as amended. The list \<open>pdf\_links\<close> is not kept free of duplicates. The
  downloader's preprocessing puts a truthy \<open>document\_url\<close> in front of \<open>pdf\_links\<close>,
  in the record's own list when the record has one, whether or not the list has it
  already: acquisition gets \<open>[document\_url] + pdf\_links\<close>, which is free of duplicates
  exactly when \<open>pdf\_links\<close> was and did not contain \<open>document\_url\<close>; with an empty
  \<open>document\_url\<close> the list stays as it is. What \<open>find\_pdf\_links\_in\_table\<close> returns are
  hrefs of the row's anchors and quoted \<open>.pdf\<close> strings of its buttons' \<open>onclick\<close>,
  possibly repeated.
\<close>

theorem main_url_put_in_front_of_links:
  assumes \<open>py_get project ''pdf_links'' (PList []) = Inr (PList links)\<close>
    and \<open>py_get project ''document_url'' (PStr []) = Inr d\<close>
  shows \<open>(truthy d \<longrightarrow>
        (\<exists>project'. get_pdf_links project = Inr (PList (d # links), project')
           \<and> (links \<noteq> [] \<longrightarrow> py_get project' ''pdf_links'' (PList []) = Inr (PList (d # links))))
        \<and> (distinct (d # links) \<longleftrightarrow> distinct links \<and> d \<notin> set links))
    \<and> (\<not> truthy d \<longrightarrow> get_pdf_links project = Inr (PList links, project))
    \<and> (\<forall>row_element.
          set (find_pdf_links_in_table row_element)
            \<subseteq> {h. \<exists>as a. row_anchors row_element = Inr as \<and> a \<in> set as \<and> href a = Inr (Some h)}
              \<union> {u. \<exists>bs b oc. row_buttons row_element = Inr bs \<and> b \<in> set bs
                       \<and> onclick b = Inr (Some oc) \<and> onclick_pdf oc = Some u})\<close>
proof (intro conjI impI allI)
  obtain kvs where kvs: \<open>project = PDict kvs\<close>
    using assms(1) by (cases project) auto
  {
    assume d: \<open>truthy d\<close>
    let ?project' = \<open>if map_of kvs ''pdf_links'' = None then project
      else PDict (dict_set kvs ''pdf_links'' (PList (d # links)))\<close>
    have g: \<open>get_pdf_links project = Inr (PList (d # links), ?project')\<close>
      using assms d kvs by (simp add: get_pdf_links_def)
    have \<open>links \<noteq> [] \<longrightarrow> py_get ?project' ''pdf_links'' (PList []) = Inr (PList (d # links))\<close>
      using assms(1) kvs by (auto simp: map_of_dict_set split: option.splits)
    with g show \<open>\<exists>project'. get_pdf_links project = Inr (PList (d # links), project')
        \<and> (links \<noteq> [] \<longrightarrow> py_get project' ''pdf_links'' (PList []) = Inr (PList (d # links)))\<close>
      by blast
    show \<open>distinct (d # links) \<longleftrightarrow> distinct links \<and> d \<notin> set links\<close> by auto
  }
  {
    assume \<open>\<not> truthy d\<close>
    then show \<open>get_pdf_links project = Inr (PList links, project)\<close>
      using assms by (simp add: get_pdf_links_def)
  }
  {
    fix row_element
    show \<open>set (find_pdf_links_in_table row_element)
        \<subseteq> {h. \<exists>as a. row_anchors row_element = Inr as \<and> a \<in> set as \<and> href a = Inr (Some h)}
          \<union> {u. \<exists>bs b oc. row_buttons row_element = Inr bs \<and> b \<in> set bs
                   \<and> onclick b = Inr (Some oc) \<and> onclick_pdf oc = Some u}\<close>
    proof (cases \<open>row_anchors row_element\<close>)
      case (Inl e)
      then show ?thesis by (simp add: find_pdf_links_in_table_def)
    next
      case (Inr as)
      obtain r acc where s: \<open>scan_anchors as [] = (r, acc)\<close>
        by (cases \<open>scan_anchors as []\<close>) auto
      with scan_anchors_sound [of as \<open>[]\<close>]
      have acc: \<open>set acc \<subseteq> {h. \<exists>a\<in>set as. href a = Inr (Some h)}\<close> by simp
      show ?thesis
      proof (cases \<open>r = None \<and> (\<exists>bs. row_buttons row_element = Inr bs)\<close>)
        case True
        then obtain bs where bs: \<open>row_buttons row_element = Inr bs\<close> by blast
        from True bs Inr s
        have eq: \<open>find_pdf_links_in_table row_element = snd (scan_buttons bs acc)\<close>
          by (simp add: find_pdf_links_in_table_def)
        show ?thesis
        proof
          fix x
          assume \<open>x \<in> set (find_pdf_links_in_table row_element)\<close>
          with eq scan_buttons_sound [of bs acc]
          have \<open>x \<in> set acc
              \<or> (\<exists>b\<in>set bs. \<exists>oc. onclick b = Inr (Some oc) \<and> onclick_pdf oc = Some x)\<close>
            by auto
          with acc Inr bs
          show \<open>x \<in> {h. \<exists>as a. row_anchors row_element = Inr as \<and> a \<in> set as
                        \<and> href a = Inr (Some h)}
              \<union> {u. \<exists>bs b oc. row_buttons row_element = Inr bs \<and> b \<in> set bs
                       \<and> onclick b = Inr (Some oc) \<and> onclick_pdf oc = Some u}\<close>
            by blast
        qed
      next
        case False
        with Inr s have \<open>find_pdf_links_in_table row_element = acc\<close>
          by (cases r; cases \<open>row_buttons row_element\<close>) (auto simp: find_pdf_links_in_table_def)
        with acc Inr show ?thesis by auto
      qed
    qed
  }
qed

theorem main_url_put_in_front_of_links_witness:
  \<open>\<exists>project'.
     get_pdf_links (PDict [(''title'', PStr ''Ley''),
         (''document_url'', PStr ''https://ppless.asambleanacional.gob.ec/docs/a.pdf''),
         (''pdf_links'', PList [PStr ''https://ppless.asambleanacional.gob.ec/docs/b.pdf''])])
     = Inr (PList [PStr ''https://ppless.asambleanacional.gob.ec/docs/a.pdf'',
                   PStr ''https://ppless.asambleanacional.gob.ec/docs/b.pdf''], project')
     \<and> py_get project' ''pdf_links'' (PList [])
       = Inr (PList [PStr ''https://ppless.asambleanacional.gob.ec/docs/a.pdf'',
                     PStr ''https://ppless.asambleanacional.gob.ec/docs/b.pdf''])\<close>
  using main_url_put_in_front_of_links [of
      \<open>PDict [(''title'', PStr ''Ley''),
         (''document_url'', PStr ''https://ppless.asambleanacional.gob.ec/docs/a.pdf''),
         (''pdf_links'', PList [PStr ''https://ppless.asambleanacional.gob.ec/docs/b.pdf''])]\<close>
      \<open>[PStr ''https://ppless.asambleanacional.gob.ec/docs/b.pdf'']\<close>
      \<open>PStr ''https://ppless.asambleanacional.gob.ec/docs/a.pdf''\<close>, THEN conjunct1]
  by simp

text \<open>A row whose one anchor has \<open>pdf\<close> in its href and in its text gives the href twice;
  a record whose \<open>document\_url\<close> is its one link goes to acquisition with that link
  twice, in its own list too.\<close>

theorem pdf_links_repeat_a_url:
  \<open>find_pdf_links_in_table
     \<lparr>row_anchors = Inr [\<lparr>href = Inr (Some ''https://ppless.asambleanacional.gob.ec/docs/a.pdf''),
                           link_text = Inr ''Ver PDF''\<rparr>],
      row_buttons = Inr []\<rparr>
   = [''https://ppless.asambleanacional.gob.ec/docs/a.pdf'',
      ''https://ppless.asambleanacional.gob.ec/docs/a.pdf'']
   \<and> get_pdf_links (PDict [(''title'', PStr ''Ley''),
         (''document_url'', PStr ''https://ppless.asambleanacional.gob.ec/docs/a.pdf''),
         (''pdf_links'', PList [PStr ''https://ppless.asambleanacional.gob.ec/docs/a.pdf''])])
     = Inr (PList [PStr ''https://ppless.asambleanacional.gob.ec/docs/a.pdf'',
                   PStr ''https://ppless.asambleanacional.gob.ec/docs/a.pdf''],
            PDict [(''title'', PStr ''Ley''),
              (''document_url'', PStr ''https://ppless.asambleanacional.gob.ec/docs/a.pdf''),
              (''pdf_links'', PList [PStr ''https://ppless.asambleanacional.gob.ec/docs/a.pdf'',
                                     PStr ''https://ppless.asambleanacional.gob.ec/docs/a.pdf''])])
   \<and> \<not> distinct [''https://ppless.asambleanacional.gob.ec/docs/a.pdf'',
                   ''https://ppless.asambleanacional.gob.ec/docs/a.pdf'']\<close>
  by code_simp

subsection \<open>Counting the batch\<close>






subsection \<open>Release of the browser\<close>

lemma close_and_return_released:
  assumes \<open>quit r = Returns ()\<close> and \<open>snd s \<longrightarrow> driver (fst s)\<close>
  shows \<open>released (close_and_return r s result)\<close>
  using assms
  by (cases s) (auto simp: released_def close_and_return_def close_driver_def)

lemma call_released:
  assumes \<open>quit r = Returns ()\<close> and \<open>snd s \<longrightarrow> driver (fst s)\<close>
    and \<open>\<And>x. released (continue x)\<close>
  shows \<open>released (call r s oc continue)\<close>
proof (cases oc)
  case (Returns x)
  with assms(3) show ?thesis by (simp add: call_def)
next
  case (Raises e)
  with close_and_return_released [OF assms(1,2)] show ?thesis by (simp add: call_def)
next
  case Interrupted
  then show ?thesis by (simp add: call_def released_def)
qed

lemma released_if:
  \<open>(b \<Longrightarrow> released x) \<Longrightarrow> (\<not> b \<Longrightarrow> released y) \<Longrightarrow> released (if b then x else y)\<close>
  by simp

text \<open>A run that \<open>main\<close> finishes outside its interrupt handler has quit the browser it
  launched, whatever was raised on the way, provided \<open>quit\<close> itself returns and
  \<open>set\_window\_size\<close> did not raise.\<close>

lemma finished_run_released_browser:
  assumes \<open>main r download_pdfs = (Finished results, s')\<close>
    and \<open>quit r = Returns ()\<close>
    and \<open>\<forall>e. set_window_size r \<noteq> Raises e\<close>
  shows \<open>\<not> snd s'\<close>
proof -
  let ?s0 = \<open>(\<lparr>driver = False, current_page = 1, seen_project_ids = {}\<rparr>, False)\<close>
  from assms(1) have start: \<open>start_scraping r download_pdfs ?s0 = (Normal results, s')\<close>
    by (auto simp: main_def Let_def split: outcome.splits prod.splits completion.splits if_splits)
  obtain c s1 where sd: \<open>setup_driver r ?s0 = (c, s1)\<close>
    by (cases \<open>setup_driver r ?s0\<close>) auto
  have \<open>released (start_scraping r download_pdfs ?s0)\<close>
  proof (cases \<open>c = Normal True\<close>)
    case False
    with sd assms(3) show ?thesis
      by (auto simp: released_def start_scraping_def setup_driver_def Let_def
          split: outcome.splits completion.splits bool.splits)
  next
    case True
    with sd have s1: \<open>snd s1 \<longrightarrow> driver (fst s1)\<close>
      by (auto simp: setup_driver_def Let_def split: outcome.splits)
    note call = call_released [OF assms(2) s1]
    note close = close_and_return_released [OF assms(2) s1]
    from sd True show ?thesis
      by (simp add: start_scraping_def) (intro call close released_if conjI impI)
  qed
  with start show ?thesis by (simp add: released_def)
qed

lemma close_and_return_leaked:
  assumes \<open>snd s\<close>
  shows \<open>leaked (close_and_return r s result)\<close>
  using assms
  by (cases s) (auto simp: leaked_def close_and_return_def close_driver_def split: outcome.splits)

lemma call_leaked:
  assumes \<open>snd s\<close> and \<open>\<And>x. leaked (continue x)\<close>
  shows \<open>leaked (call r s oc continue)\<close>
proof (cases oc)
  case (Returns x)
  with assms(2) show ?thesis by (simp add: call_def)
next
  case (Raises e)
  with close_and_return_leaked [OF assms(1)] show ?thesis by (simp add: call_def)
next
  case Interrupted
  with assms(1) show ?thesis by (cases s) (simp add: call_def leaked_def)
qed

lemma leaked_if:
  \<open>(b \<Longrightarrow> leaked x) \<Longrightarrow> (\<not> b \<Longrightarrow> leaked y) \<Longrightarrow> leaked (if b then x else y)\<close>
  by simp

text \<open>Once the browser is launched, a run that ends in the interrupt handler of \<open>main\<close>
  has left it running.\<close>

lemma interrupted_run_keeps_browser:
  assumes \<open>main r download_pdfs = (Interrupted_by_user, s')\<close>
    and \<open>chrome r = Returns ()\<close>
    and \<open>download_pdfs \<longrightarrow> mkdir r \<noteq> Interrupted\<close>
  shows \<open>snd s'\<close>
proof -
  let ?s0 = \<open>(\<lparr>driver = False, current_page = 1, seen_project_ids = {}\<rparr>, False)\<close>
  from assms(1,3) have start: \<open>start_scraping r download_pdfs ?s0 = (Interrupt, s')\<close>
    by (auto simp: main_def Let_def split: outcome.splits prod.splits completion.splits if_splits)
  obtain c s1 where sd: \<open>setup_driver r ?s0 = (c, s1)\<close>
    by (cases \<open>setup_driver r ?s0\<close>) auto
  with assms(2) have s1: \<open>snd s1\<close>
    by (auto simp: setup_driver_def Let_def split: outcome.splits)
  have \<open>leaked (start_scraping r download_pdfs ?s0)\<close>
  proof (cases \<open>c = Normal True\<close>)
    case False
    with sd s1 show ?thesis
      by (auto simp: leaked_def start_scraping_def split: completion.splits bool.splits)
  next
    case True
    note call = call_leaked [OF s1]
    note close = close_and_return_leaked [OF s1]
    from sd True show ?thesis
      by (simp add: start_scraping_def) (intro call close leaked_if conjI impI)
  qed
  with start show ?thesis by (simp add: leaked_def)
qed

text \<open>
  Claim C8 on the code. The user interrupts a run while the pages are scraped, every
  other call returning: \<open>start\_scraping\<close> is left without \<open>close\_driver\<close>, \<open>main\<close> ends
  in its interrupt handler, and the browser is still running with \<open>self.driver\<close> set.
  The same run without the interrupt ends with the browser quit.
\<close>

theorem interrupt_leaves_browser_running:
  \<open>main (quiet_run\<lparr>scrape_all_pages := Interrupted\<rparr>) True
     = (Interrupted_by_user, \<lparr>driver = True, current_page = 1, seen_project_ids = {}\<rparr>, True)
   \<and> snd (snd (main quiet_run True)) = False\<close>
  by (simp add: main_def start_scraping_def setup_driver_def close_and_return_def
      close_driver_def call_def quiet_run_def)

text \<open>A failure of \<open>set\_window\_size\<close> also leaves the browser running: \<open>setup\_driver\<close>
  answers \<open>False\<close> with \<open>self.driver\<close> set, and \<open>start\_scraping\<close> returns without
  \<open>close\_driver\<close>.\<close>

lemma failed_window_size_leaves_browser_running:
  \<open>main (quiet_run\<lparr>set_window_size := Raises WebDriverException\<rparr>) True
     = (Finished None, \<lparr>driver = True, current_page = 1, seen_project_ids = {}\<rparr>, True)\<close>
  by (simp add: main_def start_scraping_def setup_driver_def close_and_return_def
      close_driver_def call_def quiet_run_def)

end
